theory Spec2Isabelle
  imports Main "HOL-Library.AList"
begin

section \<open>Values, validation errors and validation results (god.go)\<close>

text \<open>
  Go's \<^verbatim>\<open>interface{}\<close> inputs are modelled by a closed sum of dynamic values:
  the untyped nil, booleans, integers, strings, slices and string-keyed maps.
  A Go map is an association list; its iteration order is the order of the list
  (the order the runtime happened to pick), and inserting into it is \<open>AList.update\<close>.
\<close>

datatype val =
    VNil
  | VBool bool
  | VInt int
  | VStr string
  | VList "val list"
  | VMap "(string \<times> val) list"

record ValidationError =
  Field :: string
  Message :: string
  ErrValue :: val
  Code :: string

record ValidationResult =
  Valid :: bool
  Errors :: "ValidationError list"
  Value :: val

record BaseSchema =
  isOptional :: bool
  isRequired :: bool
  defaultValue :: val
  hasDefault :: bool

definition setOptional :: "BaseSchema \<Rightarrow> BaseSchema" where
  "setOptional s = s\<lparr>isOptional := True, isRequired := False\<rparr>"

definition setRequired :: "BaseSchema \<Rightarrow> BaseSchema" where
  "setRequired s = s\<lparr>isRequired := True, isOptional := False\<rparr>"

definition setDefault :: "BaseSchema \<Rightarrow> val \<Rightarrow> BaseSchema" where
  "setDefault s v = s\<lparr>defaultValue := v, hasDefault := True\<rparr>"

text \<open>
  \<^verbatim>\<open>handleNil\<close> returns the processed value, the flag \<^verbatim>\<open>shouldReturn\<close> and a
  result. The last component of the non-nil branch is Go's zero \<^verbatim>\<open>ValidationResult{}\<close>.
\<close>

definition handleNil :: "BaseSchema \<Rightarrow> val \<Rightarrow> val \<times> bool \<times> ValidationResult" where
  "handleNil s v =
     (if v = VNil then
        (if hasDefault s then
           (defaultValue s, False, \<lparr>Valid = True, Errors = [], Value = defaultValue s\<rparr>)
         else if isOptional s then
           (VNil, True, \<lparr>Valid = True, Errors = [], Value = VNil\<rparr>)
         else if isRequired s then
           (VNil, True,
            \<lparr>Valid = False,
             Errors = [\<lparr>Field = [], Message = ''field is required'', ErrValue = VNil,
                        Code = ''required''\<rparr>],
             Value = VNil\<rparr>)
         else
           (VNil, True,
            \<lparr>Valid = False,
             Errors = [\<lparr>Field = [], Message = ''field is required'', ErrValue = VNil,
                        Code = ''required''\<rparr>],
             Value = VNil\<rparr>))
      else (v, False, \<lparr>Valid = False, Errors = [], Value = VNil\<rparr>))"

section \<open>Formatting of counts and indices\<close>

definition digit :: "nat \<Rightarrow> char" where
  "digit n = ''0123456789'' ! n"

fun fmt_nat :: "nat \<Rightarrow> string" where
  "fmt_nat n = (if n < 10 then [digit n] else fmt_nat (n div 10) @ [digit (n mod 10)])"

declare fmt_nat.simps [simp del]

definition fmt_int :: "int \<Rightarrow> string" where
  "fmt_int i = (if i < 0 then CHR ''-'' # fmt_nat (nat (- i)) else fmt_nat (nat i))"

definition index_tag :: "nat \<Rightarrow> string" where
  "index_tag i = ''['' @ fmt_nat i @ '']''"

definition union_tag :: "nat \<Rightarrow> string" where
  "union_tag i = ''union['' @ fmt_nat i @ '']''"

text \<open>The loop \<^verbatim>\<open>for _, err := range result.Errors { err.Field = f; errors = append(errors, err) }\<close>.\<close>

definition retag :: "string \<Rightarrow> ValidationError list \<Rightarrow> ValidationError list" where
  "retag f errs = map (\<lambda>err. err\<lparr>Field := f\<rparr>) errs"

section \<open>Schema nodes and the heap\<close>

text \<open>
  Schemas are pointers to mutable structs that share children, so nodes live in a heap
  indexed by addresses. A \<^verbatim>\<open>Schema\<close> interface value is an address; a nil interface is
  an address outside the heap (calling a method on it panics) or, where the source tests
  for nil, \<open>None\<close>. The embedded \<^verbatim>\<open>BaseSchema\<close> of every struct is the \<open>base\<close> of the node.
\<close>

type_synonym addr = nat

record ObjectSchema =
  objFields :: "(string \<times> addr) list"
  strict :: bool
  passthrough :: bool
  catchall :: "addr option"
  partial :: bool
  deepPartial :: bool
  required :: "string list"
  pick :: "string list"
  omit :: "string list"
  objExtend :: "(string \<times> addr) list"
  mergeTarget :: "addr option"

datatype schema_kind =
    KAny
  | KUnknown
  | KVoid
  | KNever
  | KLeaf nat
  | KObject ObjectSchema
  | KArray addr "int option" "int option" "int option" bool
  | KTuple "addr list" "addr option"
  | KUnion "addr list"
  | KDiscriminatedUnion string "(string \<times> addr) list"
  | KLiteral val
  | KEnum "val list"
  | KNullable addr
  | KLazy nat "addr option"

record node =
  base :: BaseSchema
  kind :: schema_kind

type_synonym heap = "addr \<Rightarrow> node option"

text \<open>
  The state threaded through validation: the heap, and for every Lazy node the number
  of times its constructor function has been invoked (a ghost counter).
\<close>

record state =
  heap :: heap
  calls :: "addr \<Rightarrow> nat"

text \<open>
  Library functions and collaborators the code calls: \<^verbatim>\<open>fmt.Sprintf("%v", x)\<close>,
  \<^verbatim>\<open>reflect.DeepEqual\<close>, the type-specific part of the primitive validators
  (string, number, boolean, date: given the original and the processed value), and the
  constructor closures handed to \<^verbatim>\<open>Lazy\<close>, which return a schema (or nil) and may
  allocate nodes.
\<close>

record env =
  sprintv :: "val \<Rightarrow> string"
  deepEqual :: "val \<Rightarrow> val \<Rightarrow> bool"
  leaf :: "nat \<Rightarrow> val \<Rightarrow> val \<Rightarrow> ValidationResult"
  schemaFn :: "nat \<Rightarrow> heap \<Rightarrow> addr option \<times> heap"

type_synonym 'a run = "state \<Rightarrow> ('a \<times> state) option"

type_synonym validator = "addr \<Rightarrow> val \<Rightarrow> ValidationResult run"

text \<open>
  \<^verbatim>\<open>Optional()\<close> and \<^verbatim>\<open>Required()\<close> are the same for every schema type: they flip the
  flags of the receiver in place and return the receiver.
\<close>

definition Schema_Optional :: "addr \<Rightarrow> addr run" where
  "Schema_Optional a st =
     (case heap st a of
        None \<Rightarrow> None
      | Some nd \<Rightarrow> Some (a, st\<lparr>heap := (heap st)(a \<mapsto> nd\<lparr>base := setOptional (base nd)\<rparr>)\<rparr>))"

definition Schema_Required :: "addr \<Rightarrow> addr run" where
  "Schema_Required a st =
     (case heap st a of
        None \<Rightarrow> None
      | Some nd \<Rightarrow> Some (a, st\<lparr>heap := (heap st)(a \<mapsto> nd\<lparr>base := setRequired (base nd)\<rparr>)\<rparr>))"

text \<open>A \<^verbatim>\<open>for ... range\<close> loop whose body may panic; \<open>None\<close> is "no result".\<close>

fun for_range :: "('x \<Rightarrow> 'acc \<Rightarrow> 'acc option) \<Rightarrow> 'x list \<Rightarrow> 'acc \<Rightarrow> 'acc option" where
  "for_range body [] acc = Some acc"
| "for_range body (x # xs) acc =
     (case body x acc of None \<Rightarrow> None | Some acc' \<Rightarrow> for_range body xs acc')"

section \<open>Object schemas: the effective field map (object.go)\<close>

text \<open>\<^verbatim>\<open>for k, v := range src { dst[k] = v }\<close>\<close>

definition range_put :: "(string \<times> 'a) list \<Rightarrow> (string \<times> 'a) list \<Rightarrow> (string \<times> 'a) list" where
  "range_put src dst = fold (\<lambda>(k, v). AList.update k v) src dst"

definition apply_pick :: "string list \<Rightarrow> (string \<times> addr) list \<Rightarrow> (string \<times> addr) list" where
  "apply_pick ks fs =
     fold (\<lambda>key picked. case map_of fs key of
                            Some schema \<Rightarrow> AList.update key schema picked
                          | None \<Rightarrow> picked) ks []"

definition apply_omit :: "string list \<Rightarrow> (string \<times> addr) list \<Rightarrow> (string \<times> addr) list" where
  "apply_omit ks fs = fold AList.delete ks fs"

definition partial_step ::
  "string \<times> addr \<Rightarrow> (string \<times> addr) list \<times> state \<Rightarrow> ((string \<times> addr) list \<times> state) option" where
  "partial_step kv acc =
     (case Schema_Optional (snd kv) (snd acc) of
        None \<Rightarrow> None
      | Some (a, st') \<Rightarrow> Some (AList.update (fst kv) a (fst acc), st'))"

definition required_step ::
  "string \<Rightarrow> (string \<times> addr) list \<times> state \<Rightarrow> ((string \<times> addr) list \<times> state) option" where
  "required_step key acc =
     (case map_of (fst acc) key of
        None \<Rightarrow> Some acc
      | Some schema \<Rightarrow>
          (case Schema_Required schema (snd acc) of
             None \<Rightarrow> None
           | Some (a, st') \<Rightarrow> Some (AList.update key a (fst acc), st')))"

text \<open>
  The field maps before the flag-changing steps: base fields, merge, extend, pick, omit.
  The merge target is a \<^verbatim>\<open>*ObjectSchema\<close>; only its base \<^verbatim>\<open>fields\<close> are read.
\<close>

definition merge_fields :: "ObjectSchema \<Rightarrow> heap \<Rightarrow> (string \<times> addr) list option" where
  "merge_fields s h =
     (case mergeTarget s of
        None \<Rightarrow> Some []
      | Some m \<Rightarrow>
          (case h m of
             None \<Rightarrow> None
           | Some nd \<Rightarrow> (case kind nd of KObject other \<Rightarrow> Some (objFields other) | _ \<Rightarrow> None)))"

definition getEffectiveFields :: "ObjectSchema \<Rightarrow> (string \<times> addr) list run" where
  "getEffectiveFields s st =
     (case merge_fields s (heap st) of
        None \<Rightarrow> None
      | Some mf \<Rightarrow>
          (let fields0 = range_put (objFields s) [];
               fields1 = range_put mf fields0;
               fields2 = range_put (objExtend s) fields1;
               fields3 = (if pick s \<noteq> [] then apply_pick (pick s) fields2 else fields2);
               fields4 = (if omit s \<noteq> [] then apply_omit (omit s) fields3 else fields3)
           in case (if partial s \<or> deepPartial s
                    then for_range partial_step fields4 (fields4, st)
                    else Some (fields4, st)) of
                None \<Rightarrow> None
              | Some acc \<Rightarrow>
                  (if required s \<noteq> [] then for_range required_step (required s) acc
                   else Some acc)))"

section \<open>Object schemas: validation (object.go)\<close>

text \<open>
  \<^verbatim>\<open>convertMapToStringInterface\<close> copies the entries into a fresh map; the keys of a
  string-keyed map are their own \<^verbatim>\<open>%v\<close> rendering.
\<close>

definition convertMapToStringInterface :: "(string \<times> val) list \<Rightarrow> (string \<times> val) list" where
  "convertMapToStringInterface kvs = range_put kvs []"

type_synonym obj_acc = "ValidationError list \<times> (string \<times> val) list \<times> state"

definition field_step ::
  "validator \<Rightarrow> (string \<times> val) list \<Rightarrow> string \<times> addr \<Rightarrow> obj_acc \<Rightarrow> obj_acc option" where
  "field_step V objMap kv acc =
     (case acc of (errors, validatedObj, st) \<Rightarrow>
        (let fieldValue = (case map_of objMap (fst kv) of None \<Rightarrow> VNil | Some x \<Rightarrow> x)
         in case V (snd kv) fieldValue st of
              None \<Rightarrow> None
            | Some (result, st') \<Rightarrow>
                if \<not> Valid result
                then Some (errors @ retag (fst kv) (Errors result), validatedObj, st')
                else if Value result \<noteq> VNil
                then Some (errors, AList.update (fst kv) (Value result) validatedObj, st')
                else Some (errors, validatedObj, st')))"

definition unknown_step ::
  "validator \<Rightarrow> ObjectSchema \<Rightarrow> (string \<times> addr) list \<Rightarrow> string \<times> val \<Rightarrow> obj_acc \<Rightarrow> obj_acc option" where
  "unknown_step V s fs kv acc =
     (case acc of (errors, validatedObj, st) \<Rightarrow>
        if map_of fs (fst kv) = None then
          (if strict s then
             Some (errors @ [\<lparr>Field = fst kv, Message = ''unknown field'', ErrValue = snd kv,
                              Code = ''unrecognized_keys''\<rparr>], validatedObj, st)
           else
             (case catchall s of
                Some c \<Rightarrow>
                  (case V c (snd kv) st of
                     None \<Rightarrow> None
                   | Some (result, st') \<Rightarrow>
                       if \<not> Valid result
                       then Some (errors @ retag (fst kv) (Errors result), validatedObj, st')
                       else Some (errors, AList.update (fst kv) (Value result) validatedObj, st'))
              | None \<Rightarrow>
                  if passthrough s
                  then Some (errors, AList.update (fst kv) (snd kv) validatedObj, st)
                  else Some acc))
        else Some acc)"

definition ObjectSchema_Validate ::
  "validator \<Rightarrow> BaseSchema \<Rightarrow> ObjectSchema \<Rightarrow> val \<Rightarrow> ValidationResult run" where
  "ObjectSchema_Validate V b s v st =
     (case handleNil b v of (processedValue, shouldReturn, result) \<Rightarrow>
        if shouldReturn then Some (result, st)
        else
          (case processedValue of
             VMap kvs \<Rightarrow>
               (let objMap = convertMapToStringInterface kvs
                in case getEffectiveFields s st of
                     None \<Rightarrow> None
                   | Some (fs, st1) \<Rightarrow>
                       (case for_range (field_step V objMap) fs ([], [], st1) of
                          None \<Rightarrow> None
                        | Some acc1 \<Rightarrow>
                            (case for_range (unknown_step V s fs) objMap acc1 of
                               None \<Rightarrow> None
                             | Some (errors, validatedObj, st3) \<Rightarrow>
                                 if errors \<noteq> []
                                 then Some (\<lparr>Valid = False, Errors = errors, Value = VNil\<rparr>, st3)
                                 else Some (\<lparr>Valid = True, Errors = [],
                                             Value = VMap validatedObj\<rparr>, st3))))
           | _ \<Rightarrow>
               Some (\<lparr>Valid = False,
                      Errors = [\<lparr>Field = [], Message = ''expected object'', ErrValue = v,
                                 Code = ''invalid_type''\<rparr>],
                      Value = VNil\<rparr>, st)))"

section \<open>Unions, literals, enums, nullable (object.go)\<close>

text \<open>
  The loop of \<^verbatim>\<open>UnionSchema.Validate\<close>: it returns from inside the loop at the first
  valid result (\<open>Some result\<close>), and otherwise collects the tagged errors in
  \<^verbatim>\<open>allErrors\<close>.
\<close>

fun union_try ::
  "validator \<Rightarrow> val \<Rightarrow> nat \<Rightarrow> addr list \<Rightarrow> ValidationError list \<Rightarrow>
     (ValidationResult option \<times> ValidationError list) run" where
  "union_try V pv i [] allErrors st = Some ((None, allErrors), st)"
| "union_try V pv i (schema # schemas) allErrors st =
     (case V schema pv st of
        None \<Rightarrow> None
      | Some (result, st') \<Rightarrow>
          if Valid result then Some ((Some result, allErrors), st')
          else union_try V pv (Suc i) schemas (allErrors @ retag (union_tag i) (Errors result)) st')"

definition UnionSchema_Validate ::
  "validator \<Rightarrow> BaseSchema \<Rightarrow> addr list \<Rightarrow> val \<Rightarrow> ValidationResult run" where
  "UnionSchema_Validate V b schemas v st =
     (case handleNil b v of (processedValue, shouldReturn, result) \<Rightarrow>
        if shouldReturn then Some (result, st)
        else
          (case union_try V processedValue 0 schemas [] st of
             None \<Rightarrow> None
           | Some ((Some r, allErrors), st') \<Rightarrow> Some (r, st')
           | Some ((None, allErrors), st') \<Rightarrow>
               Some (\<lparr>Valid = False,
                      Errors = [\<lparr>Field = [],
                                 Message = ''value does not match any of the union types (''
                                           @ fmt_nat (length schemas) @ '' alternatives tried)'',
                                 ErrValue = v, Code = ''invalid_union''\<rparr>],
                      Value = VNil\<rparr>, st')))"

definition DiscriminatedUnionSchema_Validate ::
  "env \<Rightarrow> validator \<Rightarrow> BaseSchema \<Rightarrow> string \<Rightarrow> (string \<times> addr) list \<Rightarrow> val \<Rightarrow>
     ValidationResult run" where
  "DiscriminatedUnionSchema_Validate E V b discriminant options v st =
     (case handleNil b v of (processedValue, shouldReturn, result) \<Rightarrow>
        if shouldReturn then Some (result, st)
        else
          (case processedValue of
             VMap kvs \<Rightarrow>
               (let objMap = convertMapToStringInterface kvs
                in case map_of objMap discriminant of
                     None \<Rightarrow>
                       Some (\<lparr>Valid = False,
                              Errors = [\<lparr>Field = [],
                                         Message = ''missing discriminant field '' @ [CHR 0x27]
                                                   @ discriminant @ [CHR 0x27],
                                         ErrValue = v, Code = ''invalid_union''\<rparr>],
                              Value = VNil\<rparr>, st)
                   | Some discriminantValue \<Rightarrow>
                       (let discriminantStr = sprintv E discriminantValue
                        in case map_of options discriminantStr of
                             None \<Rightarrow>
                               Some (\<lparr>Valid = False,
                                      Errors = [\<lparr>Field = [],
                                                 Message = ''unknown discriminant value ''
                                                           @ [CHR 0x27] @ discriminantStr
                                                           @ [CHR 0x27],
                                                 ErrValue = discriminantValue,
                                                 Code = ''invalid_union''\<rparr>],
                                      Value = VNil\<rparr>, st)
                           | Some schema \<Rightarrow> V schema processedValue st))
           | _ \<Rightarrow>
               Some (\<lparr>Valid = False,
                      Errors = [\<lparr>Field = [],
                                 Message = ''expected object for discriminated union'',
                                 ErrValue = v, Code = ''invalid_type''\<rparr>],
                      Value = VNil\<rparr>, st)))"

definition LiteralSchema_Validate :: "env \<Rightarrow> BaseSchema \<Rightarrow> val \<Rightarrow> val \<Rightarrow> ValidationResult" where
  "LiteralSchema_Validate E b lit v =
     (case handleNil b v of (processedValue, shouldReturn, result) \<Rightarrow>
        if shouldReturn then result
        else if \<not> deepEqual E processedValue lit then
          \<lparr>Valid = False,
           Errors = [\<lparr>Field = [], Message = ''expected literal value '' @ sprintv E lit,
                      ErrValue = v, Code = ''invalid_literal''\<rparr>],
           Value = VNil\<rparr>
        else \<lparr>Valid = True, Errors = [], Value = processedValue\<rparr>)"

definition EnumSchema_Validate :: "env \<Rightarrow> BaseSchema \<Rightarrow> val list \<Rightarrow> val \<Rightarrow> ValidationResult" where
  "EnumSchema_Validate E b vals v =
     (case handleNil b v of (processedValue, shouldReturn, result) \<Rightarrow>
        if shouldReturn then result
        else if list_ex (deepEqual E processedValue) vals then
          \<lparr>Valid = True, Errors = [], Value = processedValue\<rparr>
        else
          \<lparr>Valid = False,
           Errors = [\<lparr>Field = [], Message = ''expected one of '' @ sprintv E (VList vals),
                      ErrValue = v, Code = ''invalid_enum_value''\<rparr>],
           Value = VNil\<rparr>)"

definition NullableSchema_Validate :: "validator \<Rightarrow> addr \<Rightarrow> val \<Rightarrow> ValidationResult run" where
  "NullableSchema_Validate V schema v st =
     (if v = VNil then Some (\<lparr>Valid = True, Errors = [], Value = VNil\<rparr>, st)
      else V schema v st)"

section \<open>Arrays and tuples (array.go)\<close>

type_synonym seq_acc = "ValidationError list \<times> val list \<times> state"

text \<open>
  The body shared by the element loops: validate element \<open>i\<close> against a schema, tag its
  errors with \<^verbatim>\<open>[i]\<close> or store its value at index \<open>i\<close>. Indexing out of range panics.
\<close>

definition element_step :: "validator \<Rightarrow> val list \<Rightarrow> addr \<Rightarrow> nat \<Rightarrow> seq_acc \<Rightarrow> seq_acc option" where
  "element_step V xs schema i acc =
     (case acc of (errors, validated, st) \<Rightarrow>
        if i < length xs then
          (case V schema (xs ! i) st of
             None \<Rightarrow> None
           | Some (result, st') \<Rightarrow>
               if \<not> Valid result
               then Some (errors @ retag (index_tag i) (Errors result), validated, st')
               else Some (errors, validated[i := Value result], st'))
        else None)"

definition ArraySchema_Validate ::
  "validator \<Rightarrow> BaseSchema \<Rightarrow> addr \<Rightarrow> int option \<Rightarrow> int option \<Rightarrow> int option \<Rightarrow> bool \<Rightarrow> val \<Rightarrow>
     ValidationResult run" where
  "ArraySchema_Validate V b element minLength maxLength exactLength nonempty v st =
     (case handleNil b v of (processedValue, shouldReturn, result) \<Rightarrow>
        if shouldReturn then Some (result, st)
        else
          (case processedValue of
             VList xs \<Rightarrow>
               (let len = int (length xs);
                    e1 = (case exactLength of
                            Some l \<Rightarrow>
                              if len \<noteq> l
                              then [\<lparr>Field = [],
                                     Message = ''array must have exactly '' @ fmt_int l @ '' elements'',
                                     ErrValue = v, Code = ''invalid_type''\<rparr>]
                              else []
                          | None \<Rightarrow> []);
                    e2 = (case minLength of
                            Some l \<Rightarrow>
                              if len < l
                              then [\<lparr>Field = [],
                                     Message = ''array must have at least '' @ fmt_int l @ '' elements'',
                                     ErrValue = v, Code = ''too_small''\<rparr>]
                              else []
                          | None \<Rightarrow> []);
                    e3 = (case maxLength of
                            Some l \<Rightarrow>
                              if len > l
                              then [\<lparr>Field = [],
                                     Message = ''array must have at most '' @ fmt_int l @ '' elements'',
                                     ErrValue = v, Code = ''too_big''\<rparr>]
                              else []
                          | None \<Rightarrow> []);
                    e4 = (if nonempty \<and> len = 0
                          then [\<lparr>Field = [], Message = ''array must not be empty'',
                                 ErrValue = v, Code = ''too_small''\<rparr>]
                          else [])
                in case for_range (element_step V xs element) [0..<length xs]
                          (e1 @ e2 @ e3 @ e4, replicate (length xs) VNil, st) of
                     None \<Rightarrow> None
                   | Some (errors, validatedArray, st') \<Rightarrow>
                       if errors \<noteq> []
                       then Some (\<lparr>Valid = False, Errors = errors, Value = VNil\<rparr>, st')
                       else Some (\<lparr>Valid = True, Errors = [], Value = VList validatedArray\<rparr>, st'))
           | _ \<Rightarrow>
               Some (\<lparr>Valid = False,
                      Errors = [\<lparr>Field = [], Message = ''expected array'', ErrValue = v,
                                 Code = ''invalid_type''\<rparr>],
                      Value = VNil\<rparr>, st)))"

text \<open>The loop over the fixed elements of a tuple, with its \<^verbatim>\<open>break\<close>.\<close>

fun tuple_fixed :: "validator \<Rightarrow> val list \<Rightarrow> nat \<Rightarrow> addr list \<Rightarrow> seq_acc \<Rightarrow> seq_acc option" where
  "tuple_fixed V xs i [] acc = Some acc"
| "tuple_fixed V xs i (elementSchema # elements) acc =
     (if i \<ge> length xs then Some acc
      else (case element_step V xs elementSchema i acc of
              None \<Rightarrow> None
            | Some acc' \<Rightarrow> tuple_fixed V xs (Suc i) elements acc'))"

definition TupleSchema_Validate ::
  "validator \<Rightarrow> BaseSchema \<Rightarrow> addr list \<Rightarrow> addr option \<Rightarrow> val \<Rightarrow> ValidationResult run" where
  "TupleSchema_Validate V b elements rest v st =
     (case handleNil b v of (processedValue, shouldReturn, result) \<Rightarrow>
        if shouldReturn then Some (result, st)
        else
          (case processedValue of
             VList xs \<Rightarrow>
               (let e1 = (if rest = None \<and> length xs \<noteq> length elements
                          then [\<lparr>Field = [],
                                 Message = ''tuple must have exactly '' @ fmt_nat (length elements)
                                           @ '' elements'',
                                 ErrValue = v, Code = ''invalid_type''\<rparr>]
                          else []);
                    e2 = (if rest \<noteq> None \<and> length xs < length elements
                          then [\<lparr>Field = [],
                                 Message = ''tuple must have at least '' @ fmt_nat (length elements)
                                           @ '' elements'',
                                 ErrValue = v, Code = ''too_small''\<rparr>]
                          else [])
                in case tuple_fixed V xs 0 elements (e1 @ e2, replicate (length xs) VNil, st) of
                     None \<Rightarrow> None
                   | Some acc1 \<Rightarrow>
                       (case (case rest of
                                Some r \<Rightarrow>
                                  for_range (element_step V xs r) [length elements..<length xs] acc1
                              | None \<Rightarrow> Some acc1) of
                          None \<Rightarrow> None
                        | Some (errors, validatedTuple, st') \<Rightarrow>
                            if errors \<noteq> []
                            then Some (\<lparr>Valid = False, Errors = errors, Value = VNil\<rparr>, st')
                            else Some (\<lparr>Valid = True, Errors = [],
                                        Value = VList validatedTuple\<rparr>, st')))
           | _ \<Rightarrow>
               Some (\<lparr>Valid = False,
                      Errors = [\<lparr>Field = [], Message = ''expected tuple'', ErrValue = v,
                                 Code = ''invalid_type''\<rparr>],
                      Value = VNil\<rparr>, st)))"

section \<open>Any, Unknown, Void, Never, the primitive validators and Lazy\<close>

definition AnySchema_Validate :: "BaseSchema \<Rightarrow> val \<Rightarrow> ValidationResult" where
  "AnySchema_Validate b v =
     (case handleNil b v of (processedValue, shouldReturn, result) \<Rightarrow>
        if shouldReturn then result else \<lparr>Valid = True, Errors = [], Value = processedValue\<rparr>)"

definition UnknownSchema_Validate :: "BaseSchema \<Rightarrow> val \<Rightarrow> ValidationResult" where
  "UnknownSchema_Validate b v =
     (case handleNil b v of (processedValue, shouldReturn, result) \<Rightarrow>
        if shouldReturn then result else \<lparr>Valid = True, Errors = [], Value = processedValue\<rparr>)"

definition VoidSchema_Validate :: "BaseSchema \<Rightarrow> val \<Rightarrow> ValidationResult" where
  "VoidSchema_Validate b v =
     (case handleNil b v of (processedValue, shouldReturn, result) \<Rightarrow>
        if shouldReturn then result else \<lparr>Valid = True, Errors = [], Value = VNil\<rparr>)"

definition NeverSchema_Validate :: "val \<Rightarrow> ValidationResult" where
  "NeverSchema_Validate v =
     \<lparr>Valid = False,
      Errors = [\<lparr>Field = [], Message = ''never type should never be used'', ErrValue = v,
                 Code = ''invalid_type''\<rparr>],
      Value = VNil\<rparr>"

text \<open>
  String, Number, Boolean and Date schemas all start with \<^verbatim>\<open>handleNil\<close> and then run
  their own checks on the processed value; those checks are the collaborator \<open>leaf\<close>.
\<close>

definition LeafSchema_Validate :: "env \<Rightarrow> BaseSchema \<Rightarrow> nat \<Rightarrow> val \<Rightarrow> ValidationResult" where
  "LeafSchema_Validate E b l v =
     (case handleNil b v of (processedValue, shouldReturn, result) \<Rightarrow>
        if shouldReturn then result else leaf E l v processedValue)"

text \<open>
  \<^verbatim>\<open>getSchema\<close>: when nothing is cached, the constructor is invoked, its invocation is
  counted, and its result is stored in the \<^verbatim>\<open>cached\<close> field of the Lazy node.
\<close>

definition getSchema :: "env \<Rightarrow> addr \<Rightarrow> addr option run" where
  "getSchema E a st =
     (case heap st a of
        None \<Rightarrow> None
      | Some nd \<Rightarrow>
          (case kind nd of
             KLazy fid cached \<Rightarrow>
               (case cached of
                  Some c \<Rightarrow> Some (Some c, st)
                | None \<Rightarrow>
                    (case schemaFn E fid (heap st) of (r, h') \<Rightarrow>
                       (case h' a of
                          None \<Rightarrow> None
                        | Some nd' \<Rightarrow>
                            (case kind nd' of
                               KLazy fid' cached' \<Rightarrow>
                                 Some (r, \<lparr>heap = h'(a \<mapsto> nd'\<lparr>kind := KLazy fid' r\<rparr>),
                                           calls = (calls st)(a := Suc (calls st a))\<rparr>)
                             | _ \<Rightarrow> None))))
           | _ \<Rightarrow> None))"

definition LazySchema_Validate :: "env \<Rightarrow> validator \<Rightarrow> addr \<Rightarrow> BaseSchema \<Rightarrow> val \<Rightarrow> ValidationResult run" where
  "LazySchema_Validate E V a b v st =
     (case handleNil b v of (processedValue, shouldReturn, result) \<Rightarrow>
        if shouldReturn then Some (result, st)
        else
          (case getSchema E a st of
             None \<Rightarrow> None
           | Some (None, st') \<Rightarrow> None
           | Some (Some c, st') \<Rightarrow> V c v st'))"

section \<open>Dynamic dispatch of \<^verbatim>\<open>Schema.Validate\<close>\<close>

text \<open>
  \<open>Schema_Validate\<close> is the method table: it runs the \<^verbatim>\<open>Validate\<close> of the node at an
  address, with \<open>V\<close> for the calls on child schemas. \<open>validate\<close> closes the recursion
  with a bound on the call depth; \<open>None\<close> means that no result is returned within the
  bound, or that a nil schema was called.
\<close>

definition Schema_Validate :: "env \<Rightarrow> validator \<Rightarrow> addr \<Rightarrow> node \<Rightarrow> val \<Rightarrow> ValidationResult run" where
  "Schema_Validate E V a nd v st =
     (case kind nd of
        KAny \<Rightarrow> Some (AnySchema_Validate (base nd) v, st)
      | KUnknown \<Rightarrow> Some (UnknownSchema_Validate (base nd) v, st)
      | KVoid \<Rightarrow> Some (VoidSchema_Validate (base nd) v, st)
      | KNever \<Rightarrow> Some (NeverSchema_Validate v, st)
      | KLeaf l \<Rightarrow> Some (LeafSchema_Validate E (base nd) l v, st)
      | KObject s \<Rightarrow> ObjectSchema_Validate V (base nd) s v st
      | KArray element minLength maxLength exactLength nonempty \<Rightarrow>
          ArraySchema_Validate V (base nd) element minLength maxLength exactLength nonempty v st
      | KTuple elements rest \<Rightarrow> TupleSchema_Validate V (base nd) elements rest v st
      | KUnion schemas \<Rightarrow> UnionSchema_Validate V (base nd) schemas v st
      | KDiscriminatedUnion discriminant options \<Rightarrow>
          DiscriminatedUnionSchema_Validate E V (base nd) discriminant options v st
      | KLiteral lit \<Rightarrow> Some (LiteralSchema_Validate E (base nd) lit v, st)
      | KEnum vals \<Rightarrow> Some (EnumSchema_Validate E (base nd) vals v, st)
      | KNullable schema \<Rightarrow> NullableSchema_Validate V schema v st
      | KLazy fid cached \<Rightarrow> LazySchema_Validate E V a (base nd) v st)"

fun validate :: "env \<Rightarrow> nat \<Rightarrow> validator" where
  "validate E 0 a v st = None"
| "validate E (Suc n) a v st =
     (case heap st a of
        None \<Rightarrow> None
      | Some nd \<Rightarrow> Schema_Validate E (validate E n) a nd v st)"

section \<open>Descriptions of what the loops compute\<close>

text \<open>
  The properties below describe the composite validators by what they do to their
  children: \<open>run_all\<close> validates a schedule of (schema, value) pairs one after the
  other, every one of them, and returns the results in order.
\<close>

fun run_all :: "validator \<Rightarrow> (addr \<times> val) list \<Rightarrow> (ValidationResult list) run" where
  "run_all V [] st = Some ([], st)"
| "run_all V (sv # svs) st =
     (case V (fst sv) (snd sv) st of
        None \<Rightarrow> None
      | Some (r, st1) \<Rightarrow>
          (case run_all V svs st1 of
             None \<Rightarrow> None
           | Some (rs, st2) \<Rightarrow> Some (r # rs, st2)))"

text \<open>The errors of the failed results, each list re-tagged with the tag of its child.\<close>

definition tagged_errors :: "(string \<times> ValidationResult) list \<Rightarrow> ValidationError list" where
  "tagged_errors trs =
     concat (map (\<lambda>tr. if Valid (snd tr) then [] else retag (fst tr) (Errors (snd tr))) trs)"


definition index_tags :: "nat \<Rightarrow> nat \<Rightarrow> string list" where
  "index_tags i n = map index_tag [i..<i + n]"

text \<open>What the element loops leave in the slice of validated values.\<close>

fun store_seq :: "nat \<Rightarrow> ValidationResult list \<Rightarrow> val list \<Rightarrow> val list" where
  "store_seq i [] vals = vals"
| "store_seq i (r # rs) vals = store_seq (Suc i) rs (if Valid r then vals[i := Value r] else vals)"







text \<open>
  Unions: \<open>all_fail_to V v ss st st'\<close> says that the alternatives \<open>ss\<close>, tried in order
  from state \<open>st\<close>, all return an invalid result and leave the state \<open>st'\<close>.
\<close>

fun all_fail_to :: "validator \<Rightarrow> val \<Rightarrow> addr list \<Rightarrow> state \<Rightarrow> state \<Rightarrow> bool" where
  "all_fail_to V v [] st st' = (st' = st)"
| "all_fail_to V v (s # ss) st st' =
     (case V s v st of None \<Rightarrow> False | Some (r, st1) \<Rightarrow> \<not> Valid r \<and> all_fail_to V v ss st1 st')"

definition invalid_union_error :: "nat \<Rightarrow> val \<Rightarrow> ValidationResult" where
  "invalid_union_error n v =
     \<lparr>Valid = False,
      Errors = [\<lparr>Field = [],
                 Message = ''value does not match any of the union types (''
                           @ fmt_nat n @ '' alternatives tried)'',
                 ErrValue = v, Code = ''invalid_union''\<rparr>],
      Value = VNil\<rparr>"

text \<open>
  Objects: the effective field map as a finite map, and the heap after the fields have
  been marked. \<open>mark_all f A h\<close> applies the flag change \<open>f\<close> to the nodes at the
  addresses in \<open>A\<close>. \<open>pure_fields\<close> is the list of fields after the steps that do not
  touch the heap.
\<close>

definition mark :: "(BaseSchema \<Rightarrow> BaseSchema) \<Rightarrow> node \<Rightarrow> node" where
  "mark f nd = nd\<lparr>base := f (base nd)\<rparr>"

definition mark_all :: "(BaseSchema \<Rightarrow> BaseSchema) \<Rightarrow> addr set \<Rightarrow> heap \<Rightarrow> heap" where
  "mark_all f A h = (\<lambda>x. if x \<in> A then map_option (mark f) (h x) else h x)"

definition required_addrs :: "string list \<Rightarrow> (string \<times> addr) list \<Rightarrow> addr list" where
  "required_addrs ks fs = List.map_filter (map_of fs) ks"



definition marked_heap :: "bool \<Rightarrow> string list \<Rightarrow> (string \<times> addr) list \<Rightarrow> heap \<Rightarrow> heap" where
  "marked_heap p req fs h =
     mark_all setRequired (set (required_addrs req fs))
       (if p then mark_all setOptional (snd ` set fs) h else h)"

text \<open>
  Objects: every declared field is validated against the input entry of its name (nil
  when missing); the input keys that are not declared are validated against the
  catchall schema unless the object is strict.
\<close>

definition field_schedule :: "(string \<times> addr) list \<Rightarrow> (string \<times> val) list \<Rightarrow> (addr \<times> val) list" where
  "field_schedule fs objMap =
     map (\<lambda>kv. (snd kv, case map_of objMap (fst kv) of None \<Rightarrow> VNil | Some x \<Rightarrow> x)) fs"

definition unknown_entries :: "(string \<times> addr) list \<Rightarrow> (string \<times> val) list \<Rightarrow> (string \<times> val) list" where
  "unknown_entries fs objMap = filter (\<lambda>kv. map_of fs (fst kv) = None) objMap"

definition unknown_schedule :: "ObjectSchema \<Rightarrow> (string \<times> val) list \<Rightarrow> (addr \<times> val) list" where
  "unknown_schedule s unk =
     (if strict s then []
      else case catchall s of Some c \<Rightarrow> map (\<lambda>kv. (c, snd kv)) unk | None \<Rightarrow> [])"

definition unknown_errors ::
  "ObjectSchema \<Rightarrow> (string \<times> val) list \<Rightarrow> ValidationResult list \<Rightarrow> ValidationError list" where
  "unknown_errors s unk us =
     (if strict s
      then map (\<lambda>kv. \<lparr>Field = fst kv, Message = ''unknown field'', ErrValue = snd kv,
                       Code = ''unrecognized_keys''\<rparr>) unk
      else case catchall s of
             Some c \<Rightarrow> tagged_errors (zip (map fst unk) us)
           | None \<Rightarrow> [])"

text \<open>What the two loops leave in the output map.\<close>

fun store_fields :: "(string \<times> ValidationResult) list \<Rightarrow> (string \<times> val) list \<Rightarrow> (string \<times> val) list" where
  "store_fields [] obj = obj"
| "store_fields (kr # krs) obj =
     store_fields krs
       (if Valid (snd kr) \<and> Value (snd kr) \<noteq> VNil
        then AList.update (fst kr) (Value (snd kr)) obj else obj)"

fun store_catchall :: "(string \<times> ValidationResult) list \<Rightarrow> (string \<times> val) list \<Rightarrow> (string \<times> val) list" where
  "store_catchall [] obj = obj"
| "store_catchall (kr # krs) obj =
     store_catchall krs
       (if Valid (snd kr) then AList.update (fst kr) (Value (snd kr)) obj else obj)"

definition store_unknown ::
  "ObjectSchema \<Rightarrow> (string \<times> val) list \<Rightarrow> ValidationResult list \<Rightarrow> (string \<times> val) list \<Rightarrow>
     (string \<times> val) list" where
  "store_unknown s unk us obj =
     (if strict s then obj
      else case catchall s of
             Some c \<Rightarrow> store_catchall (zip (map fst unk) us) obj
           | None \<Rightarrow> if passthrough s then range_put unk obj else obj)"

definition obj_outcome :: "ValidationError list \<Rightarrow> (string \<times> val) list \<Rightarrow> ValidationResult" where
  "obj_outcome errors obj =
     (if errors \<noteq> [] then \<lparr>Valid = False, Errors = errors, Value = VNil\<rparr>
      else \<lparr>Valid = True, Errors = [], Value = VMap obj\<rparr>)"

text \<open>
  Lazy schemas: \<open>is_cached h l\<close> says that the node at \<open>l\<close> is a Lazy node whose cache
  is filled; \<open>lazy_once st l\<close> that the constructor of \<open>l\<close> has not been invoked, or has
  been invoked once and its result is cached. A constructor closure cannot reach the
  unexported \<^verbatim>\<open>cached\<close> field of a Lazy node: \<open>ctor_keeps_cache\<close> says that no
  constructor empties the cache of \<open>l\<close>.
\<close>

definition is_cached :: "heap \<Rightarrow> addr \<Rightarrow> bool" where
  "is_cached h l =
     (case h l of
        None \<Rightarrow> False
      | Some nd \<Rightarrow> (case kind nd of KLazy fid cached \<Rightarrow> cached \<noteq> None | _ \<Rightarrow> False))"




section \<open>Example schemas\<close>

text \<open>
  A concrete environment for the examples: \<^verbatim>\<open>%v\<close> on scalars, structural equality for
  \<^verbatim>\<open>reflect.DeepEqual\<close> (the examples compare scalars only), an unconstrained
  \<^verbatim>\<open>String()\<close> as the primitive validator, and constructors that return an already
  allocated node.
\<close>

definition example_sprintv :: "val \<Rightarrow> string" where
  "example_sprintv v =
     (case v of
        VNil \<Rightarrow> ''<nil>''
      | VBool b \<Rightarrow> (if b then ''true'' else ''false'')
      | VInt i \<Rightarrow> fmt_int i
      | VStr s \<Rightarrow> s
      | _ \<Rightarrow> ''?'')"

definition example_string :: "val \<Rightarrow> val \<Rightarrow> ValidationResult" where
  "example_string v pv =
     (case pv of
        VStr s \<Rightarrow> \<lparr>Valid = True, Errors = [], Value = VStr s\<rparr>
      | _ \<Rightarrow> \<lparr>Valid = False,
               Errors = [\<lparr>Field = [], Message = ''expected string'', ErrValue = v,
                          Code = ''invalid_type''\<rparr>],
               Value = VNil\<rparr>)"

definition example_env :: env where
  "example_env = \<lparr>sprintv = example_sprintv, deepEqual = (=), leaf = (\<lambda>l. example_string),
                   schemaFn = (\<lambda>fid h. (Some fid, h))\<rparr>"

text \<open>The base every constructor (\<^verbatim>\<open>String()\<close>, \<^verbatim>\<open>Object(...)\<close>, ...) starts from.\<close>

definition required_base :: BaseSchema where
  "required_base = \<lparr>isOptional = False, isRequired = True, defaultValue = VNil, hasDefault = False\<rparr>"

definition required_error :: ValidationResult where
  "required_error =
     \<lparr>Valid = False,
      Errors = [\<lparr>Field = [], Message = ''field is required'', ErrValue = VNil, Code = ''required''\<rparr>],
      Value = VNil\<rparr>"

definition mk_state :: "(addr \<times> node) list \<Rightarrow> state" where
  "mk_state nodes = \<lparr>heap = map_of nodes, calls = (\<lambda>a. 0)\<rparr>"

text \<open>\<^verbatim>\<open>Nullable(String())\<close> at address 0.\<close>

definition nullable_state :: state where
  "nullable_state = mk_state [(0, \<lparr>base = required_base, kind = KNullable 1\<rparr>),
                              (1, \<lparr>base = required_base, kind = KLeaf 0\<rparr>)]"


text \<open>\<^verbatim>\<open>String().Optional()\<close> at address 0 and \<^verbatim>\<open>Any().Default(7)\<close> at address 2.\<close>

definition scalar_state :: state where
  "scalar_state =
     mk_state [(0, \<lparr>base = setOptional required_base, kind = KLeaf 0\<rparr>),
               (2, \<lparr>base = setDefault required_base (VInt 7), kind = KAny\<rparr>)]"

text \<open>\<^verbatim>\<open>Union(String(), Any())\<close> at address 0 and \<^verbatim>\<open>Union(String(), Literal(1))\<close> at address 3.\<close>

definition union_state :: state where
  "union_state =
     mk_state [(0, \<lparr>base = required_base, kind = KUnion [1, 2]\<rparr>),
               (1, \<lparr>base = required_base, kind = KLeaf 0\<rparr>),
               (2, \<lparr>base = required_base, kind = KAny\<rparr>),
               (3, \<lparr>base = required_base, kind = KUnion [1, 4]\<rparr>),
               (4, \<lparr>base = required_base, kind = KLiteral (VInt 1)\<rparr>)]"


text \<open>What \<^verbatim>\<open>Object(fields)\<close> builds, apart from the base.\<close>

definition Object_new :: "(string \<times> addr) list \<Rightarrow> ObjectSchema" where
  "Object_new fs =
     \<lparr>objFields = fs, strict = False, passthrough = False, catchall = None, partial = False,
      deepPartial = False, required = [], pick = [], omit = [], objExtend = [],
      mergeTarget = None\<rparr>"










text \<open>
  \<^verbatim>\<open>DiscriminatedUnion("type", {"circle": Object({radius: String()})})\<close> at address 0.
\<close>

definition shape_state :: state where
  "shape_state =
     mk_state [(0, \<lparr>base = required_base,
                   kind = KDiscriminatedUnion ''type'' [(''circle'', 2)]\<rparr>),
               (2, \<lparr>base = required_base, kind = KObject (Object_new [(''radius'', 3)])\<rparr>),
               (3, \<lparr>base = required_base, kind = KLeaf 0\<rparr>)]"








section \<open>Absent values: default, optional, required\<close>

lemmas scalar_validate_defs =
  AnySchema_Validate_def UnknownSchema_Validate_def VoidSchema_Validate_def
  NeverSchema_Validate_def LeafSchema_Validate_def LiteralSchema_Validate_def
  EnumSchema_Validate_def NullableSchema_Validate_def

lemmas composite_validate_defs =
  ObjectSchema_Validate_def ArraySchema_Validate_def TupleSchema_Validate_def
  UnionSchema_Validate_def DiscriminatedUnionSchema_Validate_def LazySchema_Validate_def

text \<open>
  C5, as stated, fails for Nullable nodes: \<^verbatim>\<open>Nullable(String())\<close> is required and has
  no default, and nil is accepted.
\<close>

theorem nullable_nil_counterexample:
  "heap nullable_state 0 = Some \<lparr>base = required_base, kind = KNullable 1\<rparr> \<and>
   \<not> hasDefault required_base \<and> \<not> isOptional required_base \<and>
   validate example_env 1 0 VNil nullable_state =
     Some (\<lparr>Valid = True, Errors = [], Value = VNil\<rparr>, nullable_state)"
  by (simp add: nullable_state_def mk_state_def required_base_def Schema_Validate_def
        NullableSchema_Validate_def)

text \<open>
  C5, amended: for every node other than Nullable and Never, nil without a default
  returns before any type-specific validation, with the heap untouched: a valid nil when
  the node is optional, and otherwise exactly one error, with code \<^verbatim>\<open>required\<close>.
\<close>

theorem nil_without_default:
  assumes "heap st a = Some nd" and "\<not> hasDefault (base nd)"
    and "kind nd \<noteq> KNever" and "\<forall>s. kind nd \<noteq> KNullable s"
  shows "validate E (Suc n) a VNil st =
           Some (if isOptional (base nd) then \<lparr>Valid = True, Errors = [], Value = VNil\<rparr>
                 else required_error, st)"
  using assms
  by (cases "kind nd")
     (simp_all add: Schema_Validate_def handleNil_def required_error_def
        scalar_validate_defs composite_validate_defs)

theorem nil_without_default_witness:
  "validate example_env 1 0 VNil scalar_state =
     Some (\<lparr>Valid = True, Errors = [], Value = VNil\<rparr>, scalar_state)"
proof -
  have h: "heap scalar_state 0 = Some \<lparr>base = setOptional required_base, kind = KLeaf 0\<rparr>"
    by (simp add: scalar_state_def mk_state_def)
  show ?thesis
    using nil_without_default [OF h, of example_env 0]
    by (simp add: setOptional_def required_base_def)
qed

section \<open>Helper lemmas on the loops\<close>

lemma handleNil_present:
  "v \<noteq> VNil \<Longrightarrow> handleNil b v = (v, False, \<lparr>Valid = False, Errors = [], Value = VNil\<rparr>)"
  by (simp add: handleNil_def)

lemma tagged_errors_Nil [simp]: "tagged_errors [] = []"
  by (simp add: tagged_errors_def)

lemma tagged_errors_Cons [simp]:
  "tagged_errors ((t, r) # trs) = (if Valid r then [] else retag t (Errors r)) @ tagged_errors trs"
  by (simp add: tagged_errors_def)

lemma tagged_errors_append [simp]:
  "tagged_errors (xs @ ys) = tagged_errors xs @ tagged_errors ys"
  by (simp add: tagged_errors_def)

lemma index_tags_0 [simp]: "index_tags i 0 = []"
  by (simp add: index_tags_def)


lemma length_index_tags [simp]: "length (index_tags i n) = n"
  by (simp add: index_tags_def)





lemma length_store_seq [simp]: "length (store_seq i rs vals) = length vals"
  by (induction rs arbitrary: i vals) auto





section \<open>Plain unions\<close>

lemma union_try_failures:
  "all_fail_to V v pre st st1 \<Longrightarrow>
   \<exists>errs'. union_try V v i (pre @ post) errs st = union_try V v (i + length pre) post errs' st1"
proof (induction pre arbitrary: i errs st)
  case Nil
  then show ?case by auto
next
  case (Cons s pre)
  from Cons.prems obtain r st' where
    V: "V s v st = Some (r, st')" and nv: "\<not> Valid r" and af: "all_fail_to V v pre st' st1"
    by (auto split: option.splits)
  from Cons.IH [OF af, of "Suc i" "errs @ retag (union_tag i) (Errors r)"]
  show ?case using V nv by simp
qed

lemma union_first_success:
  assumes "v \<noteq> VNil" and "all_fail_to V v pre st st1"
    and "V s v st1 = Some (r, st')" and "Valid r"
  shows "UnionSchema_Validate V b (pre @ s # post) v st = Some (r, st')"
proof -
  from union_try_failures [OF assms(2), of 0 "s # post" "[]"]
  obtain errs' where
    "union_try V v 0 (pre @ s # post) [] st = union_try V v (length pre) (s # post) errs' st1"
    by auto
  then show ?thesis using assms by (simp add: UnionSchema_Validate_def handleNil_present)
qed

lemma union_all_fail:
  assumes "v \<noteq> VNil" and "all_fail_to V v schemas st st'"
  shows "UnionSchema_Validate V b schemas v st =
           Some (invalid_union_error (length schemas) v, st')"
proof -
  from union_try_failures [OF assms(2), of 0 "[]" "[]"]
  obtain errs' where
    "union_try V v 0 schemas [] st = union_try V v (length schemas) [] errs' st'"
    by auto
  then show ?thesis
    using assms by (simp add: UnionSchema_Validate_def handleNil_present invalid_union_error_def)
qed

text \<open>
  C4: for a present value, the alternatives of a union are tried in declaration order.
  If the alternatives before \<open>s\<close> all fail and \<open>s\<close> succeeds, the result of \<open>s\<close> is
  returned as it is. If all alternatives fail, the result is invalid with exactly one
  error, of code \<^verbatim>\<open>invalid_union\<close>, whose message gives the number of alternatives.
\<close>

theorem union_first_match_or_summary:
  assumes "v \<noteq> VNil"
  shows "(all_fail_to V v pre st st1 \<and> V s v st1 = Some (r, st2) \<and> Valid r \<longrightarrow>
            UnionSchema_Validate V b (pre @ s # post) v st = Some (r, st2)) \<and>
         (all_fail_to V v schemas st st' \<longrightarrow>
            UnionSchema_Validate V b schemas v st =
              Some (\<lparr>Valid = False,
                     Errors = [\<lparr>Field = [],
                                Message = ''value does not match any of the union types (''
                                          @ fmt_nat (length schemas) @ '' alternatives tried)'',
                                ErrValue = v, Code = ''invalid_union''\<rparr>],
                     Value = VNil\<rparr>, st'))"
  using assms union_first_success [of v V pre st st1 s r st2 b post]
    union_all_fail [of v V schemas st st' b]
  by (simp add: invalid_union_error_def)

lemmas example_defs =
  mk_state_def required_base_def example_env_def example_sprintv_def example_string_def

lemma fmt_nat_small [simp]:
  "fmt_nat 0 = ''0''" "fmt_nat 1 = ''1''" "fmt_nat 2 = ''2''" "fmt_nat 3 = ''3''"
  by (simp_all add: fmt_nat.simps digit_def)

theorem union_first_match_or_summary_witness:
  "UnionSchema_Validate (validate example_env 1) required_base [1, 2] (VInt 42) union_state =
     Some (\<lparr>Valid = True, Errors = [], Value = VInt 42\<rparr>, union_state) \<and>
   UnionSchema_Validate (validate example_env 1) required_base [1, 4] (VBool True) union_state =
     Some (\<lparr>Valid = False,
            Errors = [\<lparr>Field = [],
                       Message = ''value does not match any of the union types (2 alternatives tried)'',
                       ErrValue = VBool True, Code = ''invalid_union''\<rparr>],
            Value = VNil\<rparr>, union_state)"
proof -
  have s1: "all_fail_to (validate example_env 1) (VInt 42) [1] union_state union_state"
    by (simp add: union_state_def example_defs Schema_Validate_def LeafSchema_Validate_def
          handleNil_def)
  have s2: "validate example_env 1 2 (VInt 42) union_state =
              Some (\<lparr>Valid = True, Errors = [], Value = VInt 42\<rparr>, union_state)"
    by (simp add: union_state_def example_defs Schema_Validate_def AnySchema_Validate_def
          handleNil_def)
  have f: "all_fail_to (validate example_env 1) (VBool True) [1, 4] union_state union_state"
    by (simp add: union_state_def example_defs Schema_Validate_def LeafSchema_Validate_def
          LiteralSchema_Validate_def handleNil_def)
  have nn: "VInt 42 \<noteq> VNil" "VBool True \<noteq> VNil"
    by simp_all
  have a: "UnionSchema_Validate (validate example_env 1) required_base ([1] @ 2 # []) (VInt 42)
             union_state =
             Some (\<lparr>Valid = True, Errors = [], Value = VInt 42\<rparr>, union_state)"
    using union_first_match_or_summary
            [OF nn(1), where V = "validate example_env 1" and pre = "[1]" and st = union_state
               and ?st1.0 = union_state and s = 2 and ?st2.0 = union_state
               and r = "\<lparr>Valid = True, Errors = [], Value = VInt 42\<rparr>" and post = "[]"
               and b = required_base]
          s1 s2
    by (simp del: validate.simps all_fail_to.simps)
  have b: "UnionSchema_Validate (validate example_env 1) required_base [1, 4] (VBool True) union_state =
             Some (invalid_union_error (length [1 :: nat, 4]) (VBool True), union_state)"
    using union_first_match_or_summary
            [OF nn(2), where V = "validate example_env 1" and schemas = "[1, 4]"
               and st = union_state and st' = union_state and b = required_base] f
    by (simp add: invalid_union_error_def del: validate.simps all_fail_to.simps)
  show ?thesis using a b by (simp add: invalid_union_error_def fmt_nat.simps digit_def)
qed

section \<open>Tuples\<close>





section \<open>The effective field map\<close>

lemma range_put_Cons: "range_put ((k, v) # kvs) acc = range_put kvs (AList.update k v acc)"
  by (simp add: range_put_def)

lemma range_put_Nil [simp]: "range_put [] acc = acc"
  by (simp add: range_put_def)


lemma map_of_range_put: "map_of (range_put kvs acc) = map_of acc ++ map_of (rev kvs)"
proof (induction kvs arbitrary: acc)
  case Nil
  then show ?case by simp
next
  case (Cons kv kvs)
  obtain k v where kv: "kv = (k, v)" by (cases kv)
  have "map_of (range_put (kv # kvs) acc) = (map_of acc)(k \<mapsto> v) ++ map_of (rev kvs)"
    unfolding kv range_put_Cons Cons.IH by (simp add: update_conv')
  also have "\<dots> = map_of acc ++ map_of (rev (kv # kvs))"
    by (simp add: kv map_of_append fun_eq_iff map_add_def split: option.splits)
  finally show ?case .
qed

lemma map_of_rev_distinct: "distinct (map fst kvs) \<Longrightarrow> map_of (rev kvs) = map_of kvs"
  by (rule map_of_inject_set [THEN iffD2]) (simp_all add: rev_map [symmetric])

lemma keys_range_put: "fst ` set (range_put kvs acc) = fst ` set acc \<union> fst ` set kvs"
proof (induction kvs arbitrary: acc)
  case Nil
  then show ?case by simp
next
  case (Cons kv kvs)
  obtain k v where kv: "kv = (k, v)" by (cases kv)
  show ?case
    unfolding kv range_put_Cons Cons.IH by (auto simp: dom_update)
qed








lemma setOptional_idem [simp]: "setOptional (setOptional b) = setOptional b"
  by (simp add: setOptional_def)

lemma setRequired_idem [simp]: "setRequired (setRequired b) = setRequired b"
  by (simp add: setRequired_def)

lemma mark_all_empty [simp]: "mark_all f {} h = h"
  by (simp add: mark_all_def)

lemma dom_mark_all [simp]: "dom (mark_all f A h) = dom h"
  by (auto simp: mark_all_def dom_def)


lemma state_heap_update_twice [simp]:
  "st\<lparr>heap := h\<rparr>\<lparr>heap := h'\<rparr> = st\<lparr>heap := h'\<rparr>"
  by simp


lemma required_addrs_Nil [simp]: "required_addrs [] fs = []"
  by (simp add: required_addrs_def)

lemma required_addrs_Cons:
  "required_addrs (k # ks) fs =
     (case map_of fs k of None \<Rightarrow> required_addrs ks fs | Some a \<Rightarrow> a # required_addrs ks fs)"
  by (simp add: required_addrs_def split: option.splits)

lemma set_required_addrs:
  "set (required_addrs ks fs) = {a. \<exists>k\<in>set ks. map_of fs k = Some a}"
  by (induction ks) (auto simp: required_addrs_Cons split: option.splits)







lemma validate_2:
  "validate E 2 a v st =
     (case heap st a of
        None \<Rightarrow> None
      | Some nd \<Rightarrow> Schema_Validate E (validate E (Suc 0)) a nd v st)"
  by (simp add: numeral_2_eq_2)


section \<open>Object validation\<close>

lemma field_loop_fission:
  "for_range (field_step V objMap) fs (errs, obj, st) =
     (case run_all V (field_schedule fs objMap) st of
        None \<Rightarrow> None
      | Some (rs, st') \<Rightarrow>
          Some (errs @ tagged_errors (zip (map fst fs) rs),
                store_fields (zip (map fst fs) rs) obj, st'))"
proof (induction fs arbitrary: errs obj st)
  case Nil
  then show ?case by (simp add: field_schedule_def)
next
  case (Cons ka fs)
  let ?x = "case map_of objMap (fst ka) of None \<Rightarrow> VNil | Some x \<Rightarrow> x"
  have sched: "field_schedule (ka # fs) objMap = (snd ka, ?x) # field_schedule fs objMap"
    by (simp add: field_schedule_def)
  show ?case
  proof (cases "V (snd ka) ?x st")
    case None
    then show ?thesis by (simp add: sched field_step_def Let_def)
  next
    case (Some p)
    obtain r st1 where p: "p = (r, st1)" by (cases p)
    show ?thesis
      using Some p Cons.IH
      by (auto simp: sched field_step_def Let_def split: option.splits)
  qed
qed

lemma unknown_entries_Cons:
  "unknown_entries fs (kv # objMap) =
     (if map_of fs (fst kv) = None then kv # unknown_entries fs objMap
      else unknown_entries fs objMap)"
  by (simp add: unknown_entries_def)

lemma unknown_loop_strict:
  assumes "strict s"
  shows "for_range (unknown_step V s fs) objMap (errs, obj, st) =
           Some (errs @ unknown_errors s (unknown_entries fs objMap) [], obj, st)"
  using assms
  by (induction objMap arbitrary: errs)
     (simp_all add: unknown_step_def unknown_errors_def unknown_entries_def)

lemma unknown_loop_catchall:
  assumes "\<not> strict s" and "catchall s = Some c"
  shows "for_range (unknown_step V s fs) objMap (errs, obj, st) =
           (case run_all V (map (\<lambda>kv. (c, snd kv)) (unknown_entries fs objMap)) st of
              None \<Rightarrow> None
            | Some (us, st') \<Rightarrow>
                Some (errs @ tagged_errors (zip (map fst (unknown_entries fs objMap)) us),
                      store_catchall (zip (map fst (unknown_entries fs objMap)) us) obj, st'))"
proof (induction objMap arbitrary: errs obj st)
  case Nil
  then show ?case by (simp add: unknown_entries_def)
next
  case (Cons kv objMap)
  show ?case
  proof (cases "map_of fs (fst kv) = None")
    case False
    then have step: "unknown_step V s fs kv (errs, obj, st) = Some (errs, obj, st)"
      by (auto simp: unknown_step_def)
    have ue: "unknown_entries fs (kv # objMap) = unknown_entries fs objMap"
      using False by (auto simp: unknown_entries_Cons)
    show ?thesis
      unfolding ue by (simp add: step Cons.IH)
  next
    case True
    then have ue: "unknown_entries fs (kv # objMap) = kv # unknown_entries fs objMap"
      by (simp add: unknown_entries_Cons)
    show ?thesis
    proof (cases "V c (snd kv) st")
      case None
      then have step: "unknown_step V s fs kv (errs, obj, st) = None"
        using True assms by (simp add: unknown_step_def)
      show ?thesis
        unfolding ue using None by (simp add: step)
    next
      case (Some p)
      obtain r st1 where p: "p = (r, st1)" by (cases p)
      have step: "unknown_step V s fs kv (errs, obj, st) =
                    Some (if \<not> Valid r then (errs @ retag (fst kv) (Errors r), obj, st1)
                          else (errs, AList.update (fst kv) (Value r) obj, st1))"
        using True assms Some p by (simp add: unknown_step_def)
      show ?thesis
        unfolding ue using Some p
        by (cases "Valid r")
           (simp_all add: step Cons.IH split: option.splits)
    qed
  qed
qed

lemma unknown_loop_passthrough:
  assumes "\<not> strict s" and "catchall s = None" and "passthrough s"
  shows "for_range (unknown_step V s fs) objMap (errs, obj, st) =
           Some (errs, range_put (unknown_entries fs objMap) obj, st)"
  using assms
proof (induction objMap arbitrary: obj)
  case Nil
  then show ?case by (simp add: unknown_entries_def)
next
  case (Cons kv objMap)
  obtain k v where kv: "kv = (k, v)" by (cases kv)
  show ?case
    using Cons by (simp add: kv unknown_entries_Cons unknown_step_def range_put_Cons)
qed

lemma unknown_loop_drop:
  assumes "\<not> strict s" and "catchall s = None" and "\<not> passthrough s"
  shows "for_range (unknown_step V s fs) objMap (errs, obj, st) = Some (errs, obj, st)"
  using assms by (induction objMap) (simp_all add: unknown_step_def)

lemma unknown_loop_fission:
  "for_range (unknown_step V s fs) objMap (errs, obj, st) =
     (case run_all V (unknown_schedule s (unknown_entries fs objMap)) st of
        None \<Rightarrow> None
      | Some (us, st') \<Rightarrow>
          Some (errs @ unknown_errors s (unknown_entries fs objMap) us,
                store_unknown s (unknown_entries fs objMap) us obj, st'))"
proof (cases "strict s")
  case True
  then show ?thesis
    by (simp add: unknown_loop_strict unknown_schedule_def unknown_errors_def store_unknown_def)
next
  case False
  note ns = this
  show ?thesis
  proof (cases "catchall s")
    case (Some c)
    then show ?thesis
      using ns
      by (simp add: unknown_loop_catchall unknown_schedule_def unknown_errors_def
            store_unknown_def split: option.splits)
  next
    case None
    then show ?thesis
      using ns
      by (cases "passthrough s")
         (simp_all add: unknown_loop_passthrough unknown_loop_drop unknown_schedule_def
            unknown_errors_def store_unknown_def)
  qed
qed

lemma object_map:
  "ObjectSchema_Validate V b s (VMap kvs) st =
     (case getEffectiveFields s st of
        None \<Rightarrow> None
      | Some (fs, st1) \<Rightarrow>
          (case run_all V (field_schedule fs (convertMapToStringInterface kvs)) st1 of
             None \<Rightarrow> None
           | Some (rs, st2) \<Rightarrow>
               (case run_all V (unknown_schedule s
                                  (unknown_entries fs (convertMapToStringInterface kvs))) st2 of
                  None \<Rightarrow> None
                | Some (us, st3) \<Rightarrow>
                    Some (obj_outcome
                            (tagged_errors (zip (map fst fs) rs)
                             @ unknown_errors s
                                 (unknown_entries fs (convertMapToStringInterface kvs)) us)
                            (store_unknown s
                               (unknown_entries fs (convertMapToStringInterface kvs)) us
                               (store_fields (zip (map fst fs) rs) [])), st3))))"
  by (simp add: ObjectSchema_Validate_def handleNil_present Let_def field_loop_fission
        unknown_loop_fission obj_outcome_def split: option.splits)


lemma plain_fields:
  "getEffectiveFields ((Object_new fs)\<lparr>strict := x\<rparr>) st = Some (range_put fs [], st)"
  by (simp add: getEffectiveFields_def merge_fields_def Object_new_def)


section \<open>The output map of an object\<close>








section \<open>Discriminated unions\<close>

lemma convert_distinct:
  "distinct (map fst kvs) \<Longrightarrow> map_of (convertMapToStringInterface kvs) = map_of kvs"
  by (simp add: convertMapToStringInterface_def map_of_range_put map_of_rev_distinct)

lemma plain_unknown:
  "unknown_schedule (Object_new fs) unk = []"
  "unknown_errors (Object_new fs) unk us = []"
  "store_unknown (Object_new fs) unk us obj = obj"
  by (simp_all add: unknown_schedule_def unknown_errors_def store_unknown_def Object_new_def)

text \<open>
  C6: for a present input, a discriminated union rejects what is not a map with
  \<^verbatim>\<open>invalid_type\<close>; a map without the discriminant field yields the single
  \<^verbatim>\<open>invalid_union\<close> error "missing discriminant field"; a discriminant whose
  \<^verbatim>\<open>%v\<close> rendering is not a key of the options yields the single \<^verbatim>\<open>invalid_union\<close>
  error that reports the rendering and carries the discriminant value; and otherwise
  the result is exactly the result of the selected branch on the input.
\<close>

theorem discriminated_union_dispatch:
  assumes "v \<noteq> VNil"
  shows "((\<forall>kvs. v \<noteq> VMap kvs) \<longrightarrow>
            DiscriminatedUnionSchema_Validate E V b d options v st =
              Some (\<lparr>Valid = False,
                     Errors = [\<lparr>Field = [],
                                Message = ''expected object for discriminated union'',
                                ErrValue = v, Code = ''invalid_type''\<rparr>],
                     Value = VNil\<rparr>, st)) \<and>
         (v = VMap kvs \<and> distinct (map fst kvs) \<and> map_of kvs d = None \<longrightarrow>
            DiscriminatedUnionSchema_Validate E V b d options v st =
              Some (\<lparr>Valid = False,
                     Errors = [\<lparr>Field = [],
                                Message = ''missing discriminant field '' @ [CHR 0x27] @ d
                                          @ [CHR 0x27],
                                ErrValue = v, Code = ''invalid_union''\<rparr>],
                     Value = VNil\<rparr>, st)) \<and>
         (v = VMap kvs \<and> distinct (map fst kvs) \<and> map_of kvs d = Some dv \<and>
          map_of options (sprintv E dv) = None \<longrightarrow>
            DiscriminatedUnionSchema_Validate E V b d options v st =
              Some (\<lparr>Valid = False,
                     Errors = [\<lparr>Field = [],
                                Message = ''unknown discriminant value '' @ [CHR 0x27]
                                          @ sprintv E dv @ [CHR 0x27],
                                ErrValue = dv, Code = ''invalid_union''\<rparr>],
                     Value = VNil\<rparr>, st)) \<and>
         (v = VMap kvs \<and> distinct (map fst kvs) \<and> map_of kvs d = Some dv \<and>
          map_of options (sprintv E dv) = Some schema \<longrightarrow>
            DiscriminatedUnionSchema_Validate E V b d options v st = V schema v st)"
proof -
  have 1: "DiscriminatedUnionSchema_Validate E V b d options v st =
              Some (\<lparr>Valid = False,
                     Errors = [\<lparr>Field = [],
                                Message = ''expected object for discriminated union'',
                                ErrValue = v, Code = ''invalid_type''\<rparr>],
                     Value = VNil\<rparr>, st)"
    if "\<forall>kvs. v \<noteq> VMap kvs"
    using that assms
    by (cases v) (simp_all add: DiscriminatedUnionSchema_Validate_def handleNil_present)
  show ?thesis
    using 1
    by (auto simp: DiscriminatedUnionSchema_Validate_def handleNil_present convert_distinct)
qed

theorem discriminated_union_dispatch_witness:
  "DiscriminatedUnionSchema_Validate example_env (validate example_env 2) required_base ''type''
     [(''circle'', 2)] (VMap [(''type'', VStr ''circle'')]) shape_state =
     Some (\<lparr>Valid = False,
            Errors = [\<lparr>Field = ''radius'', Message = ''field is required'', ErrValue = VNil,
                       Code = ''required''\<rparr>],
            Value = VNil\<rparr>, shape_state) \<and>
   DiscriminatedUnionSchema_Validate example_env (validate example_env 2) required_base ''type''
     [(''circle'', 2)] (VMap [(''type'', VStr ''square'')]) shape_state =
     Some (\<lparr>Valid = False,
            Errors = [\<lparr>Field = [],
                       Message = ''unknown discriminant value '' @ [CHR 0x27] @ ''square''
                                 @ [CHR 0x27],
                       ErrValue = VStr ''square'', Code = ''invalid_union''\<rparr>],
            Value = VNil\<rparr>, shape_state) \<and>
   DiscriminatedUnionSchema_Validate example_env (validate example_env 2) required_base ''type''
     [(''circle'', 2)] (VMap [(''radius'', VStr ''5'')]) shape_state =
     Some (\<lparr>Valid = False,
            Errors = [\<lparr>Field = [],
                       Message = ''missing discriminant field '' @ [CHR 0x27] @ ''type''
                                 @ [CHR 0x27],
                       ErrValue = VMap [(''radius'', VStr ''5'')], Code = ''invalid_union''\<rparr>],
            Value = VNil\<rparr>, shape_state) \<and>
   DiscriminatedUnionSchema_Validate example_env (validate example_env 2) required_base ''type''
     [(''circle'', 2)] (VInt 3) shape_state =
     Some (\<lparr>Valid = False,
            Errors = [\<lparr>Field = [], Message = ''expected object for discriminated union'',
                       ErrValue = VInt 3, Code = ''invalid_type''\<rparr>],
            Value = VNil\<rparr>, shape_state)"
proof -
  note D = discriminated_union_dispatch
             [where E = example_env and V = "validate example_env 2" and b = required_base
                and d = "''type''" and options = "[(''circle'', 2)]" and st = shape_state]
  have n2: "heap shape_state 2 =
              Some \<lparr>base = required_base, kind = KObject (Object_new [(''radius'', 3)])\<rparr>"
    by (simp add: shape_state_def mk_state_def)
  have leaf: "validate example_env (Suc 0) 3 VNil shape_state = Some (required_error, shape_state)"
    by (simp add: shape_state_def example_defs Schema_Validate_def LeafSchema_Validate_def
          handleNil_def required_error_def)
  have g: "getEffectiveFields (Object_new [(''radius'', 3)]) shape_state =
             Some ([(''radius'', 3)], shape_state)"
    using plain_fields [where fs = "[(''radius'', 3)]" and x = False and st = shape_state]
    by (simp add: Object_new_def range_put_def)
  have branch: "validate example_env 2 2 (VMap [(''type'', VStr ''circle'')]) shape_state =
     Some (\<lparr>Valid = False,
            Errors = [\<lparr>Field = ''radius'', Message = ''field is required'', ErrValue = VNil,
                       Code = ''required''\<rparr>],
            Value = VNil\<rparr>, shape_state)"
    unfolding validate_2 n2
    by (simp add: Schema_Validate_def object_map g convertMapToStringInterface_def range_put_def
          field_schedule_def leaf plain_unknown obj_outcome_def required_error_def retag_def
          del: validate.simps)
  have a: "DiscriminatedUnionSchema_Validate example_env (validate example_env 2) required_base
             ''type'' [(''circle'', 2)] (VMap [(''type'', VStr ''circle'')]) shape_state =
           validate example_env 2 2 (VMap [(''type'', VStr ''circle'')]) shape_state"
    using D [where v = "VMap [(''type'', VStr ''circle'')]"
               and kvs = "[(''type'', VStr ''circle'')]" and dv = "VStr ''circle''"
               and schema = 2]
    by (simp add: example_env_def example_sprintv_def del: validate.simps)
  have b: "DiscriminatedUnionSchema_Validate example_env (validate example_env 2) required_base
             ''type'' [(''circle'', 2)] (VMap [(''type'', VStr ''square'')]) shape_state =
     Some (\<lparr>Valid = False,
            Errors = [\<lparr>Field = [],
                       Message = ''unknown discriminant value '' @ [CHR 0x27] @ ''square''
                                 @ [CHR 0x27],
                       ErrValue = VStr ''square'', Code = ''invalid_union''\<rparr>],
            Value = VNil\<rparr>, shape_state)"
    using D [where v = "VMap [(''type'', VStr ''square'')]"
               and kvs = "[(''type'', VStr ''square'')]" and dv = "VStr ''square''"]
    by (simp add: example_env_def example_sprintv_def del: validate.simps)
  have c: "DiscriminatedUnionSchema_Validate example_env (validate example_env 2) required_base
             ''type'' [(''circle'', 2)] (VMap [(''radius'', VStr ''5'')]) shape_state =
     Some (\<lparr>Valid = False,
            Errors = [\<lparr>Field = [],
                       Message = ''missing discriminant field '' @ [CHR 0x27] @ ''type''
                                 @ [CHR 0x27],
                       ErrValue = VMap [(''radius'', VStr ''5'')], Code = ''invalid_union''\<rparr>],
            Value = VNil\<rparr>, shape_state)"
    using D [where v = "VMap [(''radius'', VStr ''5'')]" and kvs = "[(''radius'', VStr ''5'')]"]
    by (simp del: validate.simps)
  have d: "DiscriminatedUnionSchema_Validate example_env (validate example_env 2) required_base
             ''type'' [(''circle'', 2)] (VInt 3) shape_state =
     Some (\<lparr>Valid = False,
            Errors = [\<lparr>Field = [], Message = ''expected object for discriminated union'',
                       ErrValue = VInt 3, Code = ''invalid_type''\<rparr>],
            Value = VNil\<rparr>, shape_state)"
    using D [where v = "VInt 3"] by (simp del: validate.simps)
  show ?thesis
    using a [unfolded branch] b c d by (simp only: simp_thms)
qed

section \<open>Lazy schemas\<close>















lemma is_cached_mark_all [simp]: "is_cached (mark_all f A h) l = is_cached h l"
  by (simp add: is_cached_def mark_all_def mark_def split: option.splits)

lemma is_cached_marked_heap [simp]: "is_cached (marked_heap p req fs h) l = is_cached h l"
  by (simp add: marked_heap_def)














section \<open>Defaults are validated like present values\<close>















end
